theory Spec2Isabelle
  imports Main
begin

section \<open>The roll follow-up heuristics of the CrewAI DM service\<close>

text \<open>
  This theory embeds the rule-based part of \<^verbatim>\<open>crewai-service/main.py\<close>: the nested
  functions \<^verbatim>\<open>build_lettered_options\<close>, \<^verbatim>\<open>roll_followup_from_history\<close> (with its
  \<^verbatim>\<open>outcome_line\<close>), \<^verbatim>\<open>heuristic_response\<close> of the endpoint \<^verbatim>\<open>respond\<close>, and
  \<^verbatim>\<open>normalize_options\<close> of the endpoint \<^verbatim>\<open>generate_options\<close>.

  Python strings are modelled as \<^typ>\<open>string\<close>; the character classes below are the
  ASCII part of Python's Unicode classes, so the model is exact on ASCII text. Python
  integers are unbounded and are modelled as \<^typ>\<open>int\<close>; the conversion \<^verbatim>\<open>int(s)\<close> raises
  \<^verbatim>\<open>ValueError\<close> on more than 4300 digits (the default of CPython), and an exception is
  a value of the type \<open>error\<close>.
\<close>

subsection \<open>Characters and strings as the Python library treats them\<close>

text \<open>\<^verbatim>\<open>str.isspace\<close> and the class \<^verbatim>\<open>\s\<close>: tab, LF, VT, FF, CR, FS, GS, RS, US, space.\<close>

definition is_space :: "char \<Rightarrow> bool" where
  "is_space c \<longleftrightarrow>
     c \<in> set [CHR 0x09, CHR 0x0A, CHR 0x0B, CHR 0x0C, CHR 0x0D,
               CHR 0x1C, CHR 0x1D, CHR 0x1E, CHR 0x1F, CHR 0x20]"

text \<open>The class \<^verbatim>\<open>\d\<close>.\<close>

definition is_digit :: "char \<Rightarrow> bool" where
  "is_digit c \<longleftrightarrow> c \<in> set ''0123456789''"

definition is_upper :: "char \<Rightarrow> bool" where
  "is_upper c \<longleftrightarrow> c \<in> set ''ABCDEFGHIJKLMNOPQRSTUVWXYZ''"

definition is_lower :: "char \<Rightarrow> bool" where
  "is_lower c \<longleftrightarrow> c \<in> set ''abcdefghijklmnopqrstuvwxyz''"

text \<open>The class \<^verbatim>\<open>\w\<close>: letters, digits and the underscore.\<close>

definition is_word :: "char \<Rightarrow> bool" where
  "is_word c \<longleftrightarrow> is_lower c \<or> is_upper c \<or> is_digit c \<or> c = CHR ''_''"

definition lower_char :: "char \<Rightarrow> char" where
  "lower_char c =
     (case map_of (zip ''ABCDEFGHIJKLMNOPQRSTUVWXYZ'' ''abcdefghijklmnopqrstuvwxyz'') c of
        Some d \<Rightarrow> d
      | None \<Rightarrow> c)"

definition upper_char :: "char \<Rightarrow> char" where
  "upper_char c =
     (case map_of (zip ''abcdefghijklmnopqrstuvwxyz'' ''ABCDEFGHIJKLMNOPQRSTUVWXYZ'') c of
        Some d \<Rightarrow> d
      | None \<Rightarrow> c)"

text \<open>\<^verbatim>\<open>str.lower\<close>.\<close>

definition lower :: "string \<Rightarrow> string" where
  "lower s = map lower_char s"

text \<open>
  \<^verbatim>\<open>str.title\<close>: a letter that follows a letter is lowered, any other letter is
  raised. The flag says whether the previous character was a letter.
\<close>

fun title_from :: "bool \<Rightarrow> string \<Rightarrow> string" where
  "title_from prev_cased [] = []"
| "title_from prev_cased (c # cs) =
     (if prev_cased then lower_char c else upper_char c)
       # title_from (is_lower c \<or> is_upper c) cs"

definition title :: "string \<Rightarrow> string" where
  "title s = title_from False s"

text \<open>\<^verbatim>\<open>str.strip\<close> with no argument.\<close>

definition lstrip :: "string \<Rightarrow> string" where
  "lstrip s = dropWhile is_space s"

definition rstrip :: "string \<Rightarrow> string" where
  "rstrip s = rev (dropWhile is_space (rev s))"

definition strip :: "string \<Rightarrow> string" where
  "strip s = rstrip (lstrip s)"

text \<open>\<^verbatim>\<open>s.startswith(p)\<close> and the substring test \<^verbatim>\<open>p in s\<close>.\<close>

definition starts_with :: "string \<Rightarrow> string \<Rightarrow> bool" where
  "starts_with p s \<longleftrightarrow> take (length p) s = p"

fun str_in :: "string \<Rightarrow> string \<Rightarrow> bool" where
  "str_in p [] \<longleftrightarrow> p = []"
| "str_in p (c # cs) \<longleftrightarrow> starts_with p (c # cs) \<or> str_in p cs"

text \<open>\<^verbatim>\<open>sep.join(xs)\<close>.\<close>

fun join :: "string \<Rightarrow> string list \<Rightarrow> string" where
  "join sep [] = []"
| "join sep [x] = x"
| "join sep (x # y # ys) = x @ sep @ join sep (y # ys)"

text \<open>
  \<^verbatim>\<open>str.splitlines\<close>: a line ends at LF, VT, FF, CR, FS, GS or RS, the pair CR LF
  counts once, and a final line end opens no further line. The first argument is the
  line under construction, reversed.
\<close>

definition is_linebreak :: "char \<Rightarrow> bool" where
  "is_linebreak c \<longleftrightarrow>
     c \<in> set [CHR 0x0A, CHR 0x0B, CHR 0x0C, CHR 0x0D, CHR 0x1C, CHR 0x1D, CHR 0x1E]"

fun splitlines_from :: "string \<Rightarrow> string \<Rightarrow> string list" where
  "splitlines_from cur [] = (if cur = [] then [] else [rev cur])"
| "splitlines_from cur [c] =
     (if is_linebreak c then [rev cur] else [rev (c # cur)])"
| "splitlines_from cur (c # d # cs) =
     (if c = CHR 0x0D \<and> d = CHR 0x0A then rev cur # splitlines_from [] cs
      else if is_linebreak c then rev cur # splitlines_from [] (d # cs)
      else splitlines_from (c # cur) (d # cs))"

definition splitlines :: "string \<Rightarrow> string list" where
  "splitlines s = splitlines_from [] s"

text \<open>
  \<^verbatim>\<open>int(ds)\<close> on a string of decimal digits, and \<^verbatim>\<open>str(n)\<close> on an integer. CPython
  refuses to convert a string of more than \<^verbatim>\<open>sys.get_int_max_str_digits()\<close> digits,
  leading zeros included, and raises \<^verbatim>\<open>ValueError\<close>; the default limit is 4300.
\<close>

datatype error = ValueError

definition int_max_str_digits :: nat where
  "int_max_str_digits = 4300"

definition digit_val :: "char \<Rightarrow> int" where
  "digit_val c = int (of_char c) - 48"

definition int_of_digits :: "string \<Rightarrow> int" where
  "int_of_digits ds = foldl (\<lambda>n c. 10 * n + digit_val c) 0 ds"

definition py_int :: "string \<Rightarrow> error + int" where
  "py_int ds =
     (if length ds > int_max_str_digits then Inl ValueError else Inr (int_of_digits ds))"

fun show_nat :: "nat \<Rightarrow> string" where
  "show_nat n =
     (if n < 10 then [''0123456789'' ! n]
      else show_nat (n div 10) @ [''0123456789'' ! (n mod 10)])"

declare show_nat.simps [simp del]

definition show_int :: "int \<Rightarrow> string" where
  "show_int i = (if i < 0 then ''-'' @ show_nat (nat (- i)) else show_nat (nat i))"

subsection \<open>The regular expressions of the service\<close>

text \<open>
  \<^verbatim>\<open>re.search\<close> tries the pattern at every start position from the left and returns
  the first match. A pattern is modelled as a function of the character before the start
  position (needed for \<^verbatim>\<open>\b\<close>) and the text from the start position on, returning
  the text of the captured group.
\<close>

fun re_search :: "(char option \<Rightarrow> string \<Rightarrow> 'a option) \<Rightarrow> char option \<Rightarrow> string \<Rightarrow> 'a option" where
  "re_search pat prev [] = pat prev []"
| "re_search pat prev (c # cs) =
     (case pat prev (c # cs) of
        Some r \<Rightarrow> Some r
      | None \<Rightarrow> re_search pat (Some c) cs)"

text \<open>\<^verbatim>\<open>\b\<close>: exactly one of the two neighbours is a word character.\<close>

definition is_word_opt :: "char option \<Rightarrow> bool" where
  "is_word_opt x = (case x of None \<Rightarrow> False | Some c \<Rightarrow> is_word c)"

definition first_char :: "string \<Rightarrow> char option" where
  "first_char s = (case s of [] \<Rightarrow> None | c # _ \<Rightarrow> Some c)"

definition word_boundary :: "char option \<Rightarrow> string \<Rightarrow> bool" where
  "word_boundary prev s \<longleftrightarrow> is_word_opt prev \<noteq> is_word_opt (first_char s)"

text \<open>A literal: the rest of the text after it, if the text starts with it.\<close>

definition lit :: "string \<Rightarrow> string \<Rightarrow> string option" where
  "lit p s = (if starts_with p s then Some (drop (length p) s) else None)"

text \<open>
  \<^verbatim>\<open>(\d+)\b\<close>: the greedy group takes the whole run of digits. A shorter run would end
  between two digits, where \<^verbatim>\<open>\b\<close> cannot hold, so backtracking into the group
  never succeeds.
\<close>

definition digits_b :: "string \<Rightarrow> string option" where
  "digits_b s =
     (let ds = takeWhile is_digit s; rest = dropWhile is_digit s in
      if ds \<noteq> [] \<and> word_boundary (Some (last ds)) rest
      then Some ds else None)"

text \<open>
  \<^verbatim>\<open>\s*(\d+)\b\<close>: the greedy \<^verbatim>\<open>\s*\<close> takes all the white space; with less, the next
  character is white space and not a digit.
\<close>

definition spaces_digits_b :: "string \<Rightarrow> string option" where
  "spaces_digits_b s = digits_b (dropWhile is_space s)"

text \<open>\<^verbatim>\<open>\b(?:dc|difficulty\s*class)\s*(\d+)\b\<close>, the alternatives in their order.\<close>

definition pat_dc :: "char option \<Rightarrow> string \<Rightarrow> string option" where
  "pat_dc prev s =
     (if \<not> word_boundary prev s then None
      else case Option.bind (lit ''dc'' s) spaces_digits_b of
             Some v \<Rightarrow> Some v
           | None \<Rightarrow>
               Option.bind (lit ''difficulty'' s)
                 (\<lambda>r. Option.bind (lit ''class'' (dropWhile is_space r)) spaces_digits_b))"

text \<open>\<^verbatim>\<open>\b(?:ac)\s*(\d+)\b\<close>.\<close>

definition pat_ac :: "char option \<Rightarrow> string \<Rightarrow> string option" where
  "pat_ac prev s =
     (if \<not> word_boundary prev s then None
      else Option.bind (lit ''ac'' s) spaces_digits_b)"

text \<open>\<^verbatim>\<open>\bi\s*rolled\s*(\d+)\b\<close>.\<close>

definition pat_i_rolled :: "char option \<Rightarrow> string \<Rightarrow> string option" where
  "pat_i_rolled prev s =
     (if \<not> word_boundary prev s then None
      else Option.bind (lit ''i'' s)
             (\<lambda>r. Option.bind (lit ''rolled'' (dropWhile is_space r)) spaces_digits_b))"

text \<open>
  \<^verbatim>\<open>rolled[^\d]*(\d+)\b\<close>: the greedy class takes every character up to the first
  digit; with less, the next character is not a digit.
\<close>

definition pat_rolled :: "char option \<Rightarrow> string \<Rightarrow> string option" where
  "pat_rolled prev s =
     Option.bind (lit ''rolled'' s) (\<lambda>r. digits_b (dropWhile (\<lambda>c. \<not> is_digit c) r))"

text \<open>\<^verbatim>\<open>\btotal\s*[:=]\s*(\d+)\b\<close>.\<close>

definition pat_total :: "char option \<Rightarrow> string \<Rightarrow> string option" where
  "pat_total prev s =
     (if \<not> word_boundary prev s then None
      else Option.bind (lit ''total'' s)
             (\<lambda>r. case dropWhile is_space r of
                     [] \<Rightarrow> None
                   | c # r' \<Rightarrow> if c \<in> set '':='' then spaces_digits_b r' else None))"

text \<open>
  A search whose group is converted inside \<^verbatim>\<open>try\<close> with \<^verbatim>\<open>except Exception: pass\<close>:
  the value assigned, and nothing when the pattern does not match or \<^verbatim>\<open>int\<close> raises.
\<close>

definition try_int_group :: "(char option \<Rightarrow> string \<Rightarrow> string option) \<Rightarrow> string \<Rightarrow> int option" where
  "try_int_group pat txt =
     (case re_search pat None txt of
        None \<Rightarrow> None
      | Some g \<Rightarrow> (case py_int g of Inl _ \<Rightarrow> None | Inr v \<Rightarrow> Some v))"

subsection \<open>Reading the reported total (lines 207 to 224)\<close>

text \<open>
  The three patterns are tried in order on the lowered message. The first one whose match
  is converted ends the loop; a match on which \<^verbatim>\<open>int\<close> raises is passed over and the
  next pattern is tried.
\<close>

definition extract_roll_total :: "string \<Rightarrow> int option" where
  "extract_roll_total message =
     (let m = lower message in
      case try_int_group pat_i_rolled m of
        Some v \<Rightarrow> Some v
      | None \<Rightarrow>
          (case try_int_group pat_rolled m of
             Some v \<Rightarrow> Some v
           | None \<Rightarrow> try_int_group pat_total m))"

subsection \<open>Requests and responses\<close>

text \<open>
  A history entry is a dictionary read with \<^verbatim>\<open>get\<close>; a missing key and the value
  \<^verbatim>\<open>None\<close> both read as \<^const>\<open>None\<close>. The fields \<^verbatim>\<open>session_id\<close>, \<^verbatim>\<open>context\<close> and
  \<^verbatim>\<open>state_section\<close> of \<^verbatim>\<open>DMRequest\<close> only feed the prompt of the language model
  and are left out.
\<close>

type_synonym turn = "string \<rightharpoonup> string"

record dm_request =
  message :: string
  history :: "turn list option"

record roll_request =
  rr_type :: string
  rr_formula :: "string option"
  rr_purpose :: "string option"
  rr_dc :: "int option"
  rr_ac :: "int option"
  rr_advantage :: "bool option"
  rr_disadvantage :: "bool option"

record narration_segment =
  seg_type :: string
  seg_text :: string
  seg_character :: "string option"
  seg_voice_category :: "string option"

record dm_response =
  resp_text :: string
  narration_segments :: "narration_segment list"
  roll_requests :: "roll_request list"

text \<open>The truth value of an optional string, and \<^verbatim>\<open>x or d\<close>.\<close>

definition truthy :: "string option \<Rightarrow> bool" where
  "truthy x = (case x of None \<Rightarrow> False | Some s \<Rightarrow> s \<noteq> [])"

definition str_or :: "string option \<Rightarrow> string \<Rightarrow> string" where
  "str_or x d = (if truthy x then the x else d)"

subsection \<open>The option menus (lines 105 to 203)\<close>

text \<open>
  \<open>lettered_options\<close> is the local list \<^verbatim>\<open>options\<close>. The hyphen of the third
  generic success option is U+2011 in the source and is written as its UTF-8 bytes.
\<close>

definition lettered_options :: "string option \<Rightarrow> string option \<Rightarrow> bool option \<Rightarrow> string list" where
  "lettered_options kind skill success =
     (let sk = lower (str_or skill []) in
      if kind = Some ''check'' then
        if sk \<in> set [''deception'', ''persuasion'', ''intimidation''] then
          if success = Some True then
            [''A. **Slip away under the distraction**, moving quickly while their attention is elsewhere.'',
             ''B. **Reposition for advantage**, circling behind cover to set up your next move.'',
             ''C. **Press the bluff**, doubling down to steer them where you want.'']
          else
            [''A. **Duck into cover**, using shadows and obstacles to break line of sight.'',
             ''B. **Change tactics**, shift to stealth or speed instead of misdirection.'',
             ''C. **Create a louder diversion**, throw debris or shout from another angle.'']
        else if sk \<in> set [''stealth''] then
          if success = Some True then
            [''A. **Shadow the pursuers**, tailing them to learn their route.'',
             ''B. **Slip past**, bypassing the danger to reach your objective.'',
             ''C. **Set an ambush**, choose a chokepoint and prepare.'']
          else
            [''A. **Freeze and conceal**, minimize movement and sound.'',
             ''B. **Break line of sight**, dash to sturdier cover immediately.'',
             ''C. **Create a cover noise**, toss something to mask your movement.'']
        else if sk \<in> set [''athletics'', ''acrobatics''] then
          if success = Some True then
            [''A. **Scale the terrain**, gaining a high vantage to escape or observe.'',
             ''B. **Dash through obstacles**, using momentum to widen the gap.'',
             ''C. **Shove or trip**, hinder a pursuer to buy time.'']
          else
            [''A. **Retreat to safer footing**, then try a different approach.'',
             ''B. **Use the environment**, topple a crate or door to block pursuit.'',
             ''C. **Switch tactics**, avoid risky stunts and move cautiously.'']
        else
          if success = Some True then
            [''A. **Capitalize immediately**, act before the window closes.'',
             ''B. **Gather more information**, probe for extra clues.'',
             ''C. **Set up allies**, coordinate for a stronger follow''
               @ [CHR 0xE2, CHR 0x80, CHR 0x91] @ ''through.'']
          else
            [''A. **Try a different angle**, apply another skill or approach.'',
             ''B. **Leverage the environment**, find cover or tools nearby.'',
             ''C. **Withdraw briefly**, reassess and plan your next move.'']
      else if kind = Some ''attack'' then
        if success = Some True then
          [''A. **Press the attack**, keep the pressure on your target.'',
           ''B. **Grapple or shove**, control their movement to gain advantage.'',
           ''C. **Withdraw to cover**, reposition before their counterattack.'']
        else
          [''A. **Feint then strike**, change timing to throw them off.'',
           ''B. **Disengage and reposition**, set up a better line or range.'',
           ''C. **Switch tactics**, try a different target or approach.'']
      else if kind = Some ''save'' then
        if success = Some True then
          [''A. **Push the advantage**, advance while the danger subsides.'',
           ''B. **Aid an ally**, help someone still in peril.'',
           ''C. **Secure a safer position**, reduce future risk.'']
        else
          [''A. **Seek cover immediately**, minimize ongoing effects.'',
           ''B. **Use a resource**, potion or feature to mitigate harm.'',
           ''C. **Call for aid**, coordinate with allies.'']
      else if kind = Some ''initiative'' then
        [''A. **Act decisively**, take the first aggressive move.'',
         ''B. **Hold and observe**, wait for an opening.'',
         ''C. **Reposition**, move to advantageous terrain.'']
      else
        [''A. **Approach cautiously**, gather more information before acting.'',
         ''B. **Create a distraction**, change the situation in your favor.'',
         ''C. **Withdraw and reassess**, plan a better approach.''])"

definition build_lettered_options :: "string option \<Rightarrow> string option \<Rightarrow> bool option \<Rightarrow> string" where
  "build_lettered_options kind skill success =
     ''\<newline>'' @ join ''\<newline>'' (lettered_options kind skill success)"

subsection \<open>Recovering the pending roll from the history (lines 226 to 294)\<close>

record pending =
  last_kind :: "string option"
  last_skill :: "string option"
  last_dc :: "int option"
  last_ac :: "int option"

definition no_pending :: pending where
  "no_pending = \<lparr>last_kind = None, last_skill = None, last_dc = None, last_ac = None\<rparr>"

definition skill_list :: "string list" where
  "skill_list =
     [''stealth'', ''perception'', ''investigation'', ''athletics'', ''acrobatics'',
      ''insight'', ''persuasion'', ''deception'', ''intimidation'', ''survival'',
      ''arcana'', ''history'', ''religion'', ''nature'', ''medicine'', ''performance'',
      ''sleight of hand'', ''animal handling'']"

definition saves :: "string list" where
  "saves = [''strength'', ''dexterity'', ''constitution'', ''intelligence'', ''wisdom'', ''charisma'']"

definition asks_check :: "string \<Rightarrow> string \<Rightarrow> bool" where
  "asks_check content s \<longleftrightarrow>
     str_in (s @ '' check'') content \<or> str_in (''roll '' @ s) content
     \<or> str_in (''roll for '' @ s) content"

definition asks_save :: "string \<Rightarrow> string \<Rightarrow> bool" where
  "asks_save content abil \<longleftrightarrow> str_in (abil @ '' saving throw'') content"

text \<open>
  One pass of the loop body on the entry \<open>h\<close>; the flag is \<^const>\<open>True\<close> when the body
  leaves the loop with \<^verbatim>\<open>break\<close>. Both conversions are guarded by \<^verbatim>\<open>try\<close>: a DC or
  AC on which \<^verbatim>\<open>int\<close> raises leaves the value found so far.
\<close>

definition scan_turn :: "turn \<Rightarrow> pending \<Rightarrow> pending \<times> bool" where
  "scan_turn h st =
     (if h ''role'' \<noteq> Some ''assistant'' then (st, False)
      else
        let content = lower (str_or (h ''content'') []);
            st1 = (case try_int_group pat_dc content of
                     Some v \<Rightarrow> st\<lparr>last_dc := Some v\<rparr>
                   | None \<Rightarrow> st);
            st2 = (case try_int_group pat_ac content of
                     Some v \<Rightarrow> st1\<lparr>last_ac := Some v\<rparr>
                   | None \<Rightarrow> st1)
        in
        if list_ex (\<lambda>kw. str_in kw content) [''initiative'', ''roll initiative'']
        then (st2\<lparr>last_kind := Some ''initiative''\<rparr>, True)
        else
          let st3 = (case find (asks_check content) skill_list of
                       Some s \<Rightarrow> st2\<lparr>last_kind := Some ''check'', last_skill := Some s\<rparr>
                     | None \<Rightarrow> st2)
          in
          if truthy (last_kind st3) then (st3, True)
          else
            let st4 = (case find (asks_save content) saves of
                         Some abil \<Rightarrow> st3\<lparr>last_kind := Some ''save'', last_skill := Some abil\<rparr>
                       | None \<Rightarrow> st3)
            in
            if truthy (last_kind st4) then (st4, True)
            else if str_in ''attack roll'' content \<or> str_in ''make an attack'' content
                    \<or> str_in ''please roll attack'' content
            then (st4\<lparr>last_kind := Some ''attack''\<rparr>, True)
            else (st4, False))"

text \<open>The loop over \<^verbatim>\<open>reversed(history[-8:])\<close>, given the entries in the order visited.\<close>

fun scan_history :: "turn list \<Rightarrow> pending \<Rightarrow> pending" where
  "scan_history [] st = st"
| "scan_history (h # hs) st =
     (case scan_turn h st of
        (st', stop) \<Rightarrow> if stop then st' else scan_history hs st')"

text \<open>\<^verbatim>\<open>history[-8:]\<close>.\<close>

definition last8 :: "'a list \<Rightarrow> 'a list" where
  "last8 xs = drop (length xs - 8) xs"

text \<open>The default targets (lines 289 to 294).\<close>

definition default_targets :: "pending \<Rightarrow> pending" where
  "default_targets st =
     (let st1 = (if last_kind st = Some ''check'' \<and> last_dc st = None
                 then st\<lparr>last_dc := Some 12\<rparr> else st);
          st2 = (if last_kind st1 = Some ''save'' \<and> last_dc st1 = None
                 then st1\<lparr>last_dc := Some 13\<rparr> else st1)
      in if last_kind st2 = Some ''attack'' \<and> last_ac st2 = None
         then st2\<lparr>last_ac := Some 13\<rparr> else st2)"

definition scanned_pending :: "turn list option \<Rightarrow> pending" where
  "scanned_pending hist =
     scan_history (rev (last8 (case hist of None \<Rightarrow> [] | Some h \<Rightarrow> h))) no_pending"

definition resolve_pending_roll :: "turn list option \<Rightarrow> pending" where
  "resolve_pending_roll hist = default_targets (scanned_pending hist)"

subsection \<open>The outcome of the reported roll (lines 297 to 327)\<close>

definition outcome_line ::
  "string option \<Rightarrow> string option \<Rightarrow> int option \<Rightarrow> int option \<Rightarrow> int \<Rightarrow> string" where
  "outcome_line kind skill d a tot =
     (if kind = Some ''initiative'' then ''Initiative noted: '' @ show_int tot @ ''.''
      else if kind = Some ''attack'' then
        (case a of
           None \<Rightarrow> ''Your attack roll is '' @ show_int tot @ ''.''
         | Some av \<Rightarrow> ''Your attack roll is '' @ show_int tot @ '' ''
                        @ (if tot \<ge> av then ''(hit)'' else ''(miss)'') @ ''.'')
      else if kind = Some ''save'' then
        (case d of
           None \<Rightarrow> ''Your saving throw total is '' @ show_int tot @ ''.''
         | Some dv \<Rightarrow> ''Your '' @ str_or skill ''saving'' @ '' throw is '' @ show_int tot
                        @ '' '' @ (if tot \<ge> dv then ''(success)'' else ''(failure)'') @ ''.'')
      else if kind = Some ''check'' then
        (case d of
           None \<Rightarrow> ''Your '' @ str_or skill ''ability'' @ '' check totals ''
                      @ show_int tot @ ''.''
         | Some dv \<Rightarrow> ''Your '' @ str_or skill ''ability'' @ '' check is '' @ show_int tot
                        @ '' '' @ (if tot \<ge> dv then ''(success)'' else ''(failure)'') @ ''.'')
      else ''Roll total recorded: '' @ show_int tot @ ''.'')"

text \<open>The flag \<^verbatim>\<open>success_flag\<close> (lines 318 to 322).\<close>

definition success_flag :: "pending \<Rightarrow> int \<Rightarrow> bool option" where
  "success_flag st result =
     (let f1 = (if last_kind st \<in> {Some ''check'', Some ''save''} \<and> last_dc st \<noteq> None
                then Some (result \<ge> the (last_dc st)) else None)
      in if last_kind st = Some ''attack'' \<and> last_ac st \<noteq> None
         then Some (result \<ge> the (last_ac st)) else f1)"

definition roll_followup_from_history :: "dm_request \<Rightarrow> dm_response option" where
  "roll_followup_from_history req =
     (case extract_roll_total (message req) of
        None \<Rightarrow> None
      | Some result \<Rightarrow>
          let st = resolve_pending_roll (history req);
              summary = outcome_line (last_kind st) (last_skill st) (last_dc st) (last_ac st) result;
              txt = summary @ '' '' @ ''What do you do next?''
                    @ build_lettered_options (last_kind st) (last_skill st) (success_flag st result)
          in Some \<lparr>resp_text = txt,
                   narration_segments =
                     [\<lparr>seg_type = ''dm'', seg_text = txt, seg_character = None,
                       seg_voice_category = None\<rparr>],
                   roll_requests = []\<rparr>)"

subsection \<open>Asking for a new roll (lines 333 to 406)\<close>

definition skills :: "string list" where
  "skills =
     [''stealth'', ''perception'', ''investigation'', ''athletics'', ''acrobatics'',
      ''insight'', ''persuasion'', ''deception'', ''intimidation'', ''survival'',
      ''arcana'', ''history'', ''religion'', ''nature'', ''medicine'', ''performance'',
      ''sleight of hand'', ''animal handling'']"

definition synonyms :: "(string \<times> string list) list" where
  "synonyms =
     [(''stealth'', [''sneak'', ''sneaking'', ''sneakily'', ''quiet'', ''quietly'', ''hide'',
                     ''hidden'', ''shadows'', ''creep'', ''silently'', ''tiptoe'']),
      (''deception'', [''diversion'', ''distract'', ''distracting'', ''bluff'', ''mislead'',
                       ''decoy'']),
      (''athletics'', [''throw'', ''toss'', ''hurl'', ''shove'', ''lift'', ''climb'', ''jump'',
                       ''grapple'']),
      (''acrobatics'', [''tumble'', ''flip'', ''balance'', ''dodge'', ''roll away'']),
      (''persuasion'', [''persuade'', ''convince'', ''appeal'', ''negotiate'', ''bargain'',
                        ''charm'']),
      (''intimidation'', [''intimidate'', ''threaten'', ''menace'', ''coerce'', ''scare'']),
      (''investigation'', [''search'', ''examine'', ''inspect'', ''analyze'', ''study'',
                           ''look over'']),
      (''perception'', [''look'', ''listen'', ''scan'', ''spot'', ''notice'', ''observe'',
                        ''hear'']),
      (''sleight of hand'', [''pickpocket'', ''palm'', ''conceal'', ''snatch'',
                             ''nimble fingers'']),
      (''survival'', [''track'', ''forage'', ''navigate'', ''trail''])]"

definition initiative_request :: roll_request where
  "initiative_request =
     \<lparr>rr_type = ''initiative'', rr_formula = Some ''1d20+2'',
      rr_purpose = Some ''Roll initiative'', rr_dc = None, rr_ac = None,
      rr_advantage = None, rr_disadvantage = None\<rparr>"

definition attack_request :: roll_request where
  "attack_request =
     \<lparr>rr_type = ''attack'', rr_formula = Some ''1d20+5'',
      rr_purpose = Some ''Attack roll'', rr_dc = None, rr_ac = Some 13,
      rr_advantage = None, rr_disadvantage = None\<rparr>"

definition check_request :: "string \<Rightarrow> int option \<Rightarrow> roll_request" where
  "check_request purpose parsed_dc =
     \<lparr>rr_type = ''check'', rr_formula = Some ''1d20+3'',
      rr_purpose = Some purpose, rr_dc = parsed_dc, rr_ac = None,
      rr_advantage = None, rr_disadvantage = None\<rparr>"

definition save_request :: "int option \<Rightarrow> roll_request" where
  "save_request parsed_dc =
     \<lparr>rr_type = ''save'', rr_formula = Some ''1d20+2'',
      rr_purpose = Some ''Saving throw'', rr_dc = parsed_dc, rr_ac = None,
      rr_advantage = None, rr_disadvantage = None\<rparr>"

text \<open>\<^verbatim>\<open>any(r.type == "check" for r in roll_requests)\<close>.\<close>

definition has_check :: "roll_request list \<Rightarrow> bool" where
  "has_check rs \<longleftrightarrow> list_ex (\<lambda>r. rr_type r = ''check'') rs"

text \<open>
  The DC stated in the lowered message (lines 336 and 337). This conversion is not
  guarded: when \<^verbatim>\<open>int\<close> raises, so does the function.
\<close>

definition parsed_dc_of :: "string \<Rightarrow> error + int option" where
  "parsed_dc_of m =
     (case re_search pat_dc None m of
        None \<Rightarrow> Inr None
      | Some g \<Rightarrow> (case py_int g of Inl e \<Rightarrow> Inl e | Inr v \<Rightarrow> Inr (Some v)))"

text \<open>
  The requests collected before the test for \<^verbatim>\<open>"save"\<close> (lines 339 to 378), from the
  lowered message \<open>m\<close> and the DC read from it.
\<close>

definition requests_before_save :: "string \<Rightarrow> int option \<Rightarrow> roll_request list" where
  "requests_before_save m parsed_dc =
     (let r1 = (if str_in ''initiative'' m then [initiative_request] else []);
          r2 = r1 @ (if str_in ''attack'' m then [attack_request] else []);
          detected_skill =
            map_option fst (find (\<lambda>(skill_name, ws). list_ex (\<lambda>w. str_in w m) ws) synonyms);
          r3 = r2 @ (case find (\<lambda>skill. str_in skill m \<or> str_in (''roll for '' @ skill) m) skills of
                       Some skill \<Rightarrow> [check_request (title skill @ '' check'') parsed_dc]
                     | None \<Rightarrow> []);
          r4 = r3 @ (if truthy detected_skill \<and> \<not> has_check r3
                     then [check_request (title (the detected_skill) @ '' check'') parsed_dc]
                     else [])
      in r4 @ (if str_in ''check'' m \<and> \<not> has_check r4
               then [check_request ''Ability check'' parsed_dc] else []))"

text \<open>The list \<^verbatim>\<open>roll_requests\<close> of a player message (lines 334 to 380).\<close>

definition classify_new_request :: "string \<Rightarrow> error + roll_request list" where
  "classify_new_request msg =
     (let m = lower msg in
      case parsed_dc_of m of
        Inl e \<Rightarrow> Inl e
      | Inr parsed_dc \<Rightarrow>
          Inr (requests_before_save m parsed_dc
               @ (if str_in ''save'' m then [save_request parsed_dc] else [])))"

text \<open>
  The environment of a call: the variable \<^verbatim>\<open>INLINE_OPTIONS\<close>, and the text of the first
  reply with status 200 from the language model, which is \<^const>\<open>None\<close> when
  \<^verbatim>\<open>OPENROUTER_API_KEY\<close> is unset or every attempt fails.
\<close>

record environment =
  inline_options :: "string option"
  llm_reply :: "string option"

definition env_truthy :: "string option \<Rightarrow> bool" where
  "env_truthy v \<longleftrightarrow> lower (strip (str_or v [])) \<in> set [''1'', ''true'', ''yes'', ''on'']"

definition type_label :: "string \<Rightarrow> string" where
  "type_label t =
     (case map_of [(''check'', ''Check''), (''save'', ''Saving Throw''), (''attack'', ''Attack''),
                   (''damage'', ''Damage''), (''initiative'', ''Initiative'')] t of
        Some l \<Rightarrow> l
      | None \<Rightarrow> title t)"

text \<open>The dash of the base sentence is U+2014 in the source, written as its UTF-8 bytes.\<close>

definition base_text :: string where
  "base_text =
     ''The scene awaits your action. Describe what you do next''
       @ [CHR 0xE2, CHR 0x80, CHR 0x94]
       @ ''I'll respond with clear consequences and options.''"

definition response_of :: "string \<Rightarrow> roll_request list \<Rightarrow> dm_response" where
  "response_of txt rs =
     \<lparr>resp_text = txt,
      narration_segments =
        [\<lparr>seg_type = ''dm'', seg_text = txt, seg_character = None, seg_voice_category = None\<rparr>],
      roll_requests = rs\<rparr>"

definition heuristic_response :: "environment \<Rightarrow> dm_request \<Rightarrow> error + dm_response" where
  "heuristic_response env req =
     (case classify_new_request (message req) of
        Inl e \<Rightarrow> Inl e
      | Inr rs \<Rightarrow>
          let txt =
            (case rs of
               rr # _ \<Rightarrow>
                 let purpose = str_or (rr_purpose rr) (type_label (rr_type rr));
                     target =
                       (case rr_dc rr of
                          Some dv \<Rightarrow> '' (DC '' @ show_int dv @ '')''
                        | None \<Rightarrow>
                            (case rr_ac rr of
                               Some av \<Rightarrow> '' (AC '' @ show_int av @ '')''
                             | None \<Rightarrow> []))
                 in ''Please roll '' @ purpose @ target @ ''.''
             | [] \<Rightarrow>
                 if env_truthy (inline_options env) \<and> \<not> str_in ''A.'' base_text
                 then base_text @ build_lettered_options None None None
                 else base_text)
          in Inr (response_of txt rs))"

text \<open>
  The answer built from a reply of the language model (lines 462 to 521). It repeats the
  classification of the message, unguarded conversion included.
\<close>

definition llm_response :: "environment \<Rightarrow> string \<Rightarrow> dm_request \<Rightarrow> error + dm_response" where
  "llm_response env reply req =
     (case classify_new_request (message req) of
        Inl e \<Rightarrow> Inl e
      | Inr rs \<Rightarrow>
          let txt = (if env_truthy (inline_options env) \<and> length rs = 0 \<and> \<not> str_in ''A.'' reply
                     then rstrip reply @ '' '' @ ''What do you do next?''
                            @ build_lettered_options None None None
                     else reply)
          in Inr (response_of txt rs))"

text \<open>
  The endpoint \<^verbatim>\<open>/dm/respond\<close>. An exception while a reply of the language model is
  worked on is caught and the heuristic answer is built instead; an exception of the
  heuristic answer leaves the endpoint.
\<close>

definition respond :: "environment \<Rightarrow> dm_request \<Rightarrow> error + dm_response" where
  "respond env req =
     (case roll_followup_from_history req of
        Some followup \<Rightarrow> Inr followup
      | None \<Rightarrow>
          (case llm_reply env of
             Some reply \<Rightarrow>
               (case llm_response env reply req of
                  Inr r \<Rightarrow> Inr r
                | Inl _ \<Rightarrow> heuristic_response env req)
           | None \<Rightarrow> heuristic_response env req))"

subsection \<open>Normalising an option menu (lines 575 to 594)\<close>

text \<open>
  \<^verbatim>\<open>re.match(r"^([A-C])\.\s*(.*)$", ln)\<close> on a line that \<^verbatim>\<open>splitlines\<close> produced: such
  a line holds no line feed, so \<^verbatim>\<open>.*\<close> runs to its end. The result is the letter and
  the second group.
\<close>

definition match_option :: "string \<Rightarrow> (char \<times> string) option" where
  "match_option ln =
     (case ln of
        l # d # rest \<Rightarrow>
          if l \<in> set ''ABC'' \<and> d = CHR ''.'' then Some (l, dropWhile is_space rest) else None
      | _ \<Rightarrow> None)"

text \<open>The string \<^verbatim>\<open>formatted\<close> of a matching line.\<close>

definition format_option :: "char \<Rightarrow> string \<Rightarrow> string" where
  "format_option l group2 =
     (let body = strip group2 in
      if CHR '','' \<in> set body then
        let head = takeWhile (\<lambda>c. c \<noteq> CHR '','') body;
            tail = tl (dropWhile (\<lambda>c. c \<noteq> CHR '','') body)
        in [l] @ ''. **'' @ strip head @ ''**, '' @ strip tail
      else [l] @ ''. **'' @ body @ ''**'')"

definition pick_options :: "string list \<Rightarrow> string list" where
  "pick_options lns =
     concat (map (\<lambda>ln. case match_option ln of
                          Some (l, g) \<Rightarrow> [format_option l g]
                        | None \<Rightarrow> []) lns)"

definition filler :: "char \<Rightarrow> string" where
  "filler label = [label] @ ''. **Explore another angle**, adapt your approach to the situation.''"

text \<open>The padding loop.\<close>

function pad_options :: "string list \<Rightarrow> string list" where
  "pad_options picked =
     (if length picked < 3
      then pad_options (picked @ [filler (''ABC'' ! length picked)])
      else picked)"
  by pat_completeness auto
termination
  by (relation "measure (\<lambda>picked. 3 - length picked)") auto

declare pad_options.simps [simp del]

definition option_lines :: "string \<Rightarrow> string list" where
  "option_lines raw = map strip (filter (\<lambda>ln. strip ln \<noteq> []) (splitlines raw))"

definition normalize_options :: "string \<Rightarrow> string list" where
  "normalize_options raw = take 3 (pad_options (pick_options (option_lines raw)))"

subsection \<open>Notions used to state the properties\<close>







text \<open>An entry from which the loop body classifies a kind, that is, at which it stops.\<close>

definition yields_kind :: "turn \<Rightarrow> bool" where
  "yields_kind h \<longleftrightarrow> snd (scan_turn h no_pending)"



text \<open>An assistant entry and a player entry with the given content.\<close>

definition assistant_says :: "string \<Rightarrow> turn" where
  "assistant_says c = [''role'' \<mapsto> ''assistant'', ''content'' \<mapsto> c]"

definition player_says :: "string \<Rightarrow> turn" where
  "player_says c = [''role'' \<mapsto> ''user'', ''content'' \<mapsto> c]"

section \<open>Properties\<close>

subsection \<open>Reading the reported total\<close>

text \<open>
  C3. The comment of the source lists \<^verbatim>\<open>"I rolled 12"\<close>, \<^verbatim>\<open>"Rolled 1d20+3 = 15"\<close> and
  \<^verbatim>\<open>"total: 10"\<close> as the variants to read. The first gives 12 and a message without a
  roll gives nothing, but the second gives nothing either: after \<^verbatim>\<open>rolled\<close> the pattern
  reaches the digit \<^verbatim>\<open>1\<close>, which is followed by the letter \<^verbatim>\<open>d\<close>, so \<^verbatim>\<open>\b\<close> fails,
  and no other pattern applies.
\<close>

theorem extract_roll_total_examples:
  "extract_roll_total ''I rolled 12'' = Some 12
   \<and> extract_roll_total ''Rolled 1d20+3 = 15'' = None
   \<and> extract_roll_total ''hello there'' = None"
  by code_simp

subsection \<open>The option menus\<close>

lemma join_three: "length xs = 3 \<Longrightarrow> join sep xs = xs ! 0 @ sep @ xs ! 1 @ sep @ xs ! 2"
  by (cases xs; cases "tl xs"; cases "tl (tl xs)") auto

lemma lettered_options_length: "length (lettered_options kind skill success) = 3"
  by (simp add: lettered_options_def Let_def)

lemma lettered_options_A: "take 3 (lettered_options kind skill success ! 0) = ''A. ''"
  by (simp add: lettered_options_def Let_def)

lemma lettered_options_B: "take 3 (lettered_options kind skill success ! 1) = ''B. ''"
  by (simp add: lettered_options_def Let_def)

lemma lettered_options_C: "take 3 (lettered_options kind skill success ! 2) = ''C. ''"
  by (simp add: lettered_options_def Let_def)

lemma lettered_options_three:
  "length (lettered_options kind skill success) = 3
   \<and> take 3 (lettered_options kind skill success ! 0) = ''A. ''
   \<and> take 3 (lettered_options kind skill success ! 1) = ''B. ''
   \<and> take 3 (lettered_options kind skill success ! 2) = ''C. ''
   \<and> build_lettered_options kind skill success
       = ''\<newline>'' @ lettered_options kind skill success ! 0
         @ ''\<newline>'' @ lettered_options kind skill success ! 1
         @ ''\<newline>'' @ lettered_options kind skill success ! 2"
proof -
  have len: "length (lettered_options kind skill success) = 3"
    by (rule lettered_options_length)
  have b: "build_lettered_options kind skill success
       = ''\<newline>'' @ lettered_options kind skill success ! 0
         @ ''\<newline>'' @ lettered_options kind skill success ! 1
         @ ''\<newline>'' @ lettered_options kind skill success ! 2"
    unfolding build_lettered_options_def by (subst join_three [OF len]) (rule refl)
  show ?thesis
    by (intro conjI len lettered_options_A lettered_options_B lettered_options_C b)
qed

lemma menu_generic:
  "kind \<notin> {Some ''check'', Some ''attack'', Some ''save'', Some ''initiative''} \<Longrightarrow>
     lettered_options kind skill success
       = [''A. **Approach cautiously**, gather more information before acting.'',
         ''B. **Create a distraction**, change the situation in your favor.'',
         ''C. **Withdraw and reassess**, plan a better approach.'']"
  by (simp add: lettered_options_def Let_def)

lemma menu_initiative:
  "kind = Some ''initiative'' \<Longrightarrow>
     lettered_options kind skill success
       = [''A. **Act decisively**, take the first aggressive move.'',
         ''B. **Hold and observe**, wait for an opening.'',
         ''C. **Reposition**, move to advantageous terrain.'']"
  by (simp add: lettered_options_def Let_def)

lemma menu_attack:
  "kind = Some ''attack'' \<Longrightarrow>
     lettered_options kind skill success
       = (if success = Some True
         then [''A. **Press the attack**, keep the pressure on your target.'',
              ''B. **Grapple or shove**, control their movement to gain advantage.'',
              ''C. **Withdraw to cover**, reposition before their counterattack.'']
         else [''A. **Feint then strike**, change timing to throw them off.'',
              ''B. **Disengage and reposition**, set up a better line or range.'',
              ''C. **Switch tactics**, try a different target or approach.''])"
  by (simp add: lettered_options_def Let_def)

lemma menu_save:
  "kind = Some ''save'' \<Longrightarrow>
     lettered_options kind skill success
       = (if success = Some True
         then [''A. **Push the advantage**, advance while the danger subsides.'',
              ''B. **Aid an ally**, help someone still in peril.'',
              ''C. **Secure a safer position**, reduce future risk.'']
         else [''A. **Seek cover immediately**, minimize ongoing effects.'',
              ''B. **Use a resource**, potion or feature to mitigate harm.'',
              ''C. **Call for aid**, coordinate with allies.''])"
  by (simp add: lettered_options_def Let_def)

lemma menu_social:
  "kind = Some ''check'' \<and> lower (str_or skill []) \<in> set [''deception'', ''persuasion'', ''intimidation''] \<Longrightarrow>
     lettered_options kind skill success
       = (if success = Some True
         then [''A. **Slip away under the distraction**, moving quickly while their attention is elsewhere.'',
              ''B. **Reposition for advantage**, circling behind cover to set up your next move.'',
              ''C. **Press the bluff**, doubling down to steer them where you want.'']
         else [''A. **Duck into cover**, using shadows and obstacles to break line of sight.'',
              ''B. **Change tactics**, shift to stealth or speed instead of misdirection.'',
              ''C. **Create a louder diversion**, throw debris or shout from another angle.''])"
  by (simp add: lettered_options_def Let_def)

lemma menu_stealth:
  "kind = Some ''check'' \<and> lower (str_or skill []) \<in> set [''stealth''] \<Longrightarrow>
     lettered_options kind skill success
       = (if success = Some True
         then [''A. **Shadow the pursuers**, tailing them to learn their route.'',
              ''B. **Slip past**, bypassing the danger to reach your objective.'',
              ''C. **Set an ambush**, choose a chokepoint and prepare.'']
         else [''A. **Freeze and conceal**, minimize movement and sound.'',
              ''B. **Break line of sight**, dash to sturdier cover immediately.'',
              ''C. **Create a cover noise**, toss something to mask your movement.''])"
  by (simp add: lettered_options_def Let_def)

lemma menu_physical:
  "kind = Some ''check'' \<and> lower (str_or skill []) \<in> set [''athletics'', ''acrobatics''] \<Longrightarrow>
     lettered_options kind skill success
       = (if success = Some True
         then [''A. **Scale the terrain**, gaining a high vantage to escape or observe.'',
              ''B. **Dash through obstacles**, using momentum to widen the gap.'',
              ''C. **Shove or trip**, hinder a pursuer to buy time.'']
         else [''A. **Retreat to safer footing**, then try a different approach.'',
              ''B. **Use the environment**, topple a crate or door to block pursuit.'',
              ''C. **Switch tactics**, avoid risky stunts and move cautiously.''])"
  by (auto simp add: lettered_options_def Let_def)

lemma menu_other_check:
  "kind = Some ''check'' \<and> lower (str_or skill []) \<notin> set [''deception'', ''persuasion'', ''intimidation'']
     \<and> lower (str_or skill []) \<notin> set [''stealth''] \<and> lower (str_or skill []) \<notin> set [''athletics'', ''acrobatics''] \<Longrightarrow>
     lettered_options kind skill success
       = (if success = Some True
         then [''A. **Capitalize immediately**, act before the window closes.'',
              ''B. **Gather more information**, probe for extra clues.'',
              ''C. **Set up allies**, coordinate for a stronger follow''
              @ [CHR 0xE2, CHR 0x80, CHR 0x91] @ ''through.'']
         else [''A. **Try a different angle**, apply another skill or approach.'',
              ''B. **Leverage the environment**, find cover or tools nearby.'',
              ''C. **Withdraw briefly**, reassess and plan your next move.''])"
  by (simp add: lettered_options_def Let_def)

text \<open>
  C6, as the code has it. For every kind, skill and success value the menu has exactly
  three entries, which begin with \<^verbatim>\<open>A. \<close>, \<^verbatim>\<open>B. \<close> and \<^verbatim>\<open>C. \<close> in this order, and the
  returned text is these entries, each after a line feed. The menu is fixed by the table
  below. A kind that is absent or not recognised gives the generic exploration menu,
  whatever skill and success are. With a recognised kind the menu is one of that kind: a
  success value that is absent counts as a failure for attack, save and check, and a check
  whose skill is absent or outside the three groups gives the generic check menus, not
  the exploration menu. Initiative has one menu.
\<close>

theorem lettered_options_table:
  "length (lettered_options kind skill success) = 3
   \<and> take 3 (lettered_options kind skill success ! 0) = ''A. ''
   \<and> take 3 (lettered_options kind skill success ! 1) = ''B. ''
   \<and> take 3 (lettered_options kind skill success ! 2) = ''C. ''
   \<and> build_lettered_options kind skill success
       = ''\<newline>'' @ lettered_options kind skill success ! 0
         @ ''\<newline>'' @ lettered_options kind skill success ! 1
         @ ''\<newline>'' @ lettered_options kind skill success ! 2
   \<and> (kind \<notin> {Some ''check'', Some ''attack'', Some ''save'', Some ''initiative''} \<longrightarrow>
       lettered_options kind skill success
         = [''A. **Approach cautiously**, gather more information before acting.'',
           ''B. **Create a distraction**, change the situation in your favor.'',
           ''C. **Withdraw and reassess**, plan a better approach.''])
   \<and> (kind = Some ''initiative'' \<longrightarrow>
       lettered_options kind skill success
         = [''A. **Act decisively**, take the first aggressive move.'',
           ''B. **Hold and observe**, wait for an opening.'',
           ''C. **Reposition**, move to advantageous terrain.''])
   \<and> (kind = Some ''attack'' \<longrightarrow>
       lettered_options kind skill success
         = (if success = Some True
           then [''A. **Press the attack**, keep the pressure on your target.'',
                ''B. **Grapple or shove**, control their movement to gain advantage.'',
                ''C. **Withdraw to cover**, reposition before their counterattack.'']
           else [''A. **Feint then strike**, change timing to throw them off.'',
                ''B. **Disengage and reposition**, set up a better line or range.'',
                ''C. **Switch tactics**, try a different target or approach.'']))
   \<and> (kind = Some ''save'' \<longrightarrow>
       lettered_options kind skill success
         = (if success = Some True
           then [''A. **Push the advantage**, advance while the danger subsides.'',
                ''B. **Aid an ally**, help someone still in peril.'',
                ''C. **Secure a safer position**, reduce future risk.'']
           else [''A. **Seek cover immediately**, minimize ongoing effects.'',
                ''B. **Use a resource**, potion or feature to mitigate harm.'',
                ''C. **Call for aid**, coordinate with allies.'']))
   \<and> (kind = Some ''check'' \<and> lower (str_or skill []) \<in> set [''deception'', ''persuasion'', ''intimidation''] \<longrightarrow>
       lettered_options kind skill success
         = (if success = Some True
           then [''A. **Slip away under the distraction**, moving quickly while their attention is elsewhere.'',
                ''B. **Reposition for advantage**, circling behind cover to set up your next move.'',
                ''C. **Press the bluff**, doubling down to steer them where you want.'']
           else [''A. **Duck into cover**, using shadows and obstacles to break line of sight.'',
                ''B. **Change tactics**, shift to stealth or speed instead of misdirection.'',
                ''C. **Create a louder diversion**, throw debris or shout from another angle.'']))
   \<and> (kind = Some ''check'' \<and> lower (str_or skill []) \<in> set [''stealth''] \<longrightarrow>
       lettered_options kind skill success
         = (if success = Some True
           then [''A. **Shadow the pursuers**, tailing them to learn their route.'',
                ''B. **Slip past**, bypassing the danger to reach your objective.'',
                ''C. **Set an ambush**, choose a chokepoint and prepare.'']
           else [''A. **Freeze and conceal**, minimize movement and sound.'',
                ''B. **Break line of sight**, dash to sturdier cover immediately.'',
                ''C. **Create a cover noise**, toss something to mask your movement.'']))
   \<and> (kind = Some ''check'' \<and> lower (str_or skill []) \<in> set [''athletics'', ''acrobatics''] \<longrightarrow>
       lettered_options kind skill success
         = (if success = Some True
           then [''A. **Scale the terrain**, gaining a high vantage to escape or observe.'',
                ''B. **Dash through obstacles**, using momentum to widen the gap.'',
                ''C. **Shove or trip**, hinder a pursuer to buy time.'']
           else [''A. **Retreat to safer footing**, then try a different approach.'',
                ''B. **Use the environment**, topple a crate or door to block pursuit.'',
                ''C. **Switch tactics**, avoid risky stunts and move cautiously.'']))
   \<and> (kind = Some ''check'' \<and> lower (str_or skill []) \<notin> set [''deception'', ''persuasion'', ''intimidation'']
     \<and> lower (str_or skill []) \<notin> set [''stealth''] \<and> lower (str_or skill []) \<notin> set [''athletics'', ''acrobatics''] \<longrightarrow>
       lettered_options kind skill success
         = (if success = Some True
           then [''A. **Capitalize immediately**, act before the window closes.'',
                ''B. **Gather more information**, probe for extra clues.'',
                ''C. **Set up allies**, coordinate for a stronger follow''
                @ [CHR 0xE2, CHR 0x80, CHR 0x91] @ ''through.'']
           else [''A. **Try a different angle**, apply another skill or approach.'',
                ''B. **Leverage the environment**, find cover or tools nearby.'',
                ''C. **Withdraw briefly**, reassess and plan your next move.'']))"
  using lettered_options_three [of kind skill success]
  by (intro conjI impI menu_generic menu_initiative menu_attack menu_save menu_social
        menu_stealth menu_physical menu_other_check) simp_all

theorem lettered_options_table_witness:
  "length (lettered_options (Some ''check'') (Some ''persuasion'') (Some True)) = 3
   \<and> lettered_options (Some ''check'') (Some ''persuasion'') (Some True)
       = [''A. **Slip away under the distraction**, moving quickly while their attention is elsewhere.'',
          ''B. **Reposition for advantage**, circling behind cover to set up your next move.'',
          ''C. **Press the bluff**, doubling down to steer them where you want.'']
   \<and> lettered_options (Some ''dance'') None None
       = [''A. **Approach cautiously**, gather more information before acting.'',
          ''B. **Create a distraction**, change the situation in your favor.'',
          ''C. **Withdraw and reassess**, plan a better approach.'']
   \<and> lettered_options (Some ''check'') None None
       = [''A. **Try a different angle**, apply another skill or approach.'',
          ''B. **Leverage the environment**, find cover or tools nearby.'',
          ''C. **Withdraw briefly**, reassess and plan your next move.'']"
  using lettered_options_table [of "Some ''check''" "Some ''persuasion''" "Some True"]
    lettered_options_table [of "Some ''dance''" None None]
    lettered_options_table [of "Some ''check''" None None]
  by (simp add: lower_def lower_char_def str_or_def truthy_def)

text \<open>
  C6, as stated, fails in its clause on absent values: an attack with no skill and no
  success value gets the failure menu of attacks, which is not the generic exploration
  menu that an absent kind gets.
\<close>

theorem null_success_not_generic_counterexample:
  "lettered_options (Some ''attack'') None None
     = [''A. **Feint then strike**, change timing to throw them off.'',
        ''B. **Disengage and reposition**, set up a better line or range.'',
        ''C. **Switch tactics**, try a different target or approach.'']
   \<and> lettered_options None None None
     = [''A. **Approach cautiously**, gather more information before acting.'',
          ''B. **Create a distraction**, change the situation in your favor.'',
          ''C. **Withdraw and reassess**, plan a better approach.'']"
  by (simp add: lettered_options_def Let_def)

subsection \<open>The default targets\<close>

lemma default_targets_dc:
  "last_dc (default_targets st) =
     (if last_dc st = None \<and> last_kind st = Some ''check'' then Some 12
      else if last_dc st = None \<and> last_kind st = Some ''save'' then Some 13
      else last_dc st)"
  by (simp add: default_targets_def Let_def)

lemma default_targets_ac:
  "last_ac (default_targets st) =
     (if last_ac st = None \<and> last_kind st = Some ''attack'' then Some 13 else last_ac st)"
  by (simp add: default_targets_def Let_def)

lemma default_targets_kind: "last_kind (default_targets st) = last_kind st"
  by (simp add: default_targets_def Let_def)

lemma default_targets_skill: "last_skill (default_targets st) = last_skill st"
  by (simp add: default_targets_def Let_def)

text \<open>
  C8. Whatever the history: a check with no DC found by the scan gets DC 12, a save with
  no DC found gets DC 13, an attack with no AC found gets AC 13, and a DC or AC that the
  scan found is kept. Kind and skill are those of the scan.
\<close>

theorem default_targets_injected:
  "(last_kind (resolve_pending_roll hist) = Some ''check'' \<and> last_dc (scanned_pending hist) = None
      \<longrightarrow> last_dc (resolve_pending_roll hist) = Some 12)
   \<and> (last_kind (resolve_pending_roll hist) = Some ''save'' \<and> last_dc (scanned_pending hist) = None
      \<longrightarrow> last_dc (resolve_pending_roll hist) = Some 13)
   \<and> (last_kind (resolve_pending_roll hist) = Some ''attack'' \<and> last_ac (scanned_pending hist) = None
      \<longrightarrow> last_ac (resolve_pending_roll hist) = Some 13)
   \<and> (last_dc (scanned_pending hist) = Some v \<longrightarrow> last_dc (resolve_pending_roll hist) = Some v)
   \<and> (last_ac (scanned_pending hist) = Some v \<longrightarrow> last_ac (resolve_pending_roll hist) = Some v)
   \<and> last_kind (resolve_pending_roll hist) = last_kind (scanned_pending hist)
   \<and> last_skill (resolve_pending_roll hist) = last_skill (scanned_pending hist)"
  by (simp add: resolve_pending_roll_def default_targets_dc default_targets_ac
        default_targets_kind default_targets_skill)

lemma scan_stealth_check:
  "scanned_pending (Some [assistant_says ''Make a Stealth check.''])
     = \<lparr>last_kind = Some ''check'', last_skill = Some ''stealth'',
        last_dc = None, last_ac = None\<rparr>"
  by code_simp

lemma scan_wisdom_save:
  "scanned_pending (Some [assistant_says ''Make a Wisdom saving throw.''])
     = \<lparr>last_kind = Some ''save'', last_skill = Some ''wisdom'',
        last_dc = None, last_ac = None\<rparr>"
  by code_simp

lemma scan_attack_roll:
  "scanned_pending (Some [assistant_says ''Make an attack roll.''])
     = \<lparr>last_kind = Some ''attack'', last_skill = None, last_dc = None, last_ac = None\<rparr>"
  by code_simp

lemma scan_with_targets:
  "scanned_pending (Some [assistant_says ''Make a Stealth check, DC 14, against AC 17.''])
     = \<lparr>last_kind = Some ''check'', last_skill = Some ''stealth'',
        last_dc = Some 14, last_ac = Some 17\<rparr>"
  by code_simp

theorem default_targets_injected_witness:
  "last_dc (resolve_pending_roll (Some [assistant_says ''Make a Stealth check.''])) = Some 12
   \<and> last_dc (resolve_pending_roll (Some [assistant_says ''Make a Wisdom saving throw.'']))
       = Some 13
   \<and> last_ac (resolve_pending_roll (Some [assistant_says ''Make an attack roll.''])) = Some 13
   \<and> last_dc (resolve_pending_roll
        (Some [assistant_says ''Make a Stealth check, DC 14, against AC 17.''])) = Some 14
   \<and> last_ac (resolve_pending_roll
        (Some [assistant_says ''Make a Stealth check, DC 14, against AC 17.''])) = Some 17"
  using default_targets_injected [of "Some [assistant_says ''Make a Stealth check.'']" 0]
    default_targets_injected [of "Some [assistant_says ''Make a Wisdom saving throw.'']" 0]
    default_targets_injected [of "Some [assistant_says ''Make an attack roll.'']" 0]
    default_targets_injected
      [of "Some [assistant_says ''Make a Stealth check, DC 14, against AC 17.'']" 14]
    default_targets_injected
      [of "Some [assistant_says ''Make a Stealth check, DC 14, against AC 17.'']" 17]
  by (simp add: scan_stealth_check scan_wisdom_save scan_attack_roll scan_with_targets)

subsection \<open>Which target value the scan keeps\<close>




lemma scan_turn_continue_kind:
  "\<not> snd (scan_turn h st) \<Longrightarrow> last_kind (fst (scan_turn h st)) = last_kind st"
  by (simp add: scan_turn_def Let_def truthy_def split: option.splits if_splits)

lemma scan_turn_stop_indep:
  "\<not> truthy (last_kind st) \<Longrightarrow> snd (scan_turn h st) = snd (scan_turn h no_pending)"
  by (simp add: scan_turn_def Let_def truthy_def no_pending_def split: option.splits if_splits)



text \<open>
  The guard at work: a DC of 4301 digits is matched, \<^verbatim>\<open>int\<close> raises on it, and the
  \<^verbatim>\<open>try\<close> block leaves the value found so far.
\<close>

lemma long_target_search:
  "0 < n \<Longrightarrow>
     re_search pat_dc None (''dc '' @ replicate n CHR ''7'') = Some (replicate n CHR ''7'')"
  by (simp add: pat_dc_def lit_def starts_with_def word_boundary_def is_word_opt_def
        first_char_def is_word_def is_lower_def is_upper_def is_digit_def is_space_def
        spaces_digits_b_def digits_b_def Let_def)

lemma guarded_conversion_skips:
  "try_int_group pat_dc (''dc '' @ replicate 4301 CHR ''7'') = None"
proof -
  have r: "re_search pat_dc None (''dc '' @ replicate 4301 CHR ''7'')
       = Some (replicate 4301 CHR ''7'')"
    by (rule long_target_search) simp
  show ?thesis
    unfolding try_int_group_def r by (simp add: py_int_def int_max_str_digits_def)
qed




subsection \<open>What the scan depends on\<close>

lemma scan_history_stops_at:
  "\<not> truthy (last_kind st) \<Longrightarrow> yields_kind t \<Longrightarrow>
     scan_history (xs @ t # ys) st = scan_history (xs @ [t]) st"
proof (induction xs arbitrary: st)
  case Nil
  then have "snd (scan_turn t st)"
    using scan_turn_stop_indep [of st t] by (simp add: yields_kind_def)
  then show ?case by (cases "scan_turn t st") simp
next
  case (Cons x xs)
  obtain st' stop where sp: "scan_turn x st = (st', stop)" by (cases "scan_turn x st")
  show ?case
  proof (cases stop)
    case True
    then show ?thesis using sp by simp
  next
    case False
    then have "last_kind st' = last_kind st"
      using scan_turn_continue_kind [of x st] sp by simp
    then have "\<not> truthy (last_kind st')" using Cons.prems(1) by simp
    then show ?thesis using Cons.IH [of st'] Cons.prems(2) sp False by simp
  qed
qed

lemma last8_append_short:
  "length newer < 8 \<Longrightarrow>
     last8 (older @ t # newer) = drop (length older - (7 - length newer)) older @ t # newer"
  by (simp add: last8_def)

lemma last8_prefix: "8 \<le> length h \<Longrightarrow> last8 (p @ h) = last8 h"
  by (simp add: last8_def)

text \<open>
  C7. The pending roll depends on the last eight entries only: two histories with the same
  last eight entries give the same kind, skill, DC and AC, and so does a history of at
  least eight entries with anything put before it. Within them, when an assistant entry
  yields a kind, whatever lies before that entry in the history has no influence: the
  older entries may be changed, removed or added to. The scan is a function of the
  history and returns a new record, so the history is left as it is.
\<close>

theorem only_last_eight_up_to_first_kind:
  "(last8 h1 = last8 h2 \<longrightarrow> resolve_pending_roll (Some h1) = resolve_pending_roll (Some h2))
   \<and> (8 \<le> length h \<longrightarrow> resolve_pending_roll (Some (p @ h)) = resolve_pending_roll (Some h))
   \<and> (yields_kind t \<and> length newer < 8 \<longrightarrow>
        resolve_pending_roll (Some (older @ t # newer))
          = resolve_pending_roll (Some (older' @ t # newer)))"
proof (intro conjI impI)
  assume "last8 h1 = last8 h2"
  then show "resolve_pending_roll (Some h1) = resolve_pending_roll (Some h2)"
    by (simp add: resolve_pending_roll_def scanned_pending_def)
next
  assume "8 \<le> length h"
  then show "resolve_pending_roll (Some (p @ h)) = resolve_pending_roll (Some h)"
    by (simp add: resolve_pending_roll_def scanned_pending_def last8_prefix)
next
  assume a: "yields_kind t \<and> length newer < 8"
  have np: "\<not> truthy (last_kind no_pending)" by (simp add: no_pending_def truthy_def)
  have "scanned_pending (Some (zs @ t # newer)) = scan_history (rev newer @ [t]) no_pending"
    for zs
    using a scan_history_stops_at [OF np, of t "rev newer"]
    by (simp add: scanned_pending_def last8_append_short)
  then show "resolve_pending_roll (Some (older @ t # newer))
          = resolve_pending_roll (Some (older' @ t # newer))"
    by (simp add: resolve_pending_roll_def)
qed


theorem only_last_eight_up_to_first_kind_witness:
  "last8 (assistant_says ''Roll initiative!'' # 
           [player_says ''I open the door.'', assistant_says ''It creaks.'',
            player_says ''I step in.'', assistant_says ''The hall is dark.'',
            player_says ''I light a torch.'', assistant_says ''Shadows move.'',
            player_says ''I sneak forward.'', assistant_says ''Make a Stealth check, DC 14.'']) = last8 (player_says ''Hello.'' # 
           [player_says ''I open the door.'', assistant_says ''It creaks.'',
            player_says ''I step in.'', assistant_says ''The hall is dark.'',
            player_says ''I light a torch.'', assistant_says ''Shadows move.'',
            player_says ''I sneak forward.'', assistant_says ''Make a Stealth check, DC 14.''])
   \<and> resolve_pending_roll (Some (assistant_says ''Roll initiative!'' # 
           [player_says ''I open the door.'', assistant_says ''It creaks.'',
            player_says ''I step in.'', assistant_says ''The hall is dark.'',
            player_says ''I light a torch.'', assistant_says ''Shadows move.'',
            player_says ''I sneak forward.'', assistant_says ''Make a Stealth check, DC 14.'']))
       = resolve_pending_roll (Some (player_says ''Hello.'' # 
           [player_says ''I open the door.'', assistant_says ''It creaks.'',
            player_says ''I step in.'', assistant_says ''The hall is dark.'',
            player_says ''I light a torch.'', assistant_says ''Shadows move.'',
            player_says ''I sneak forward.'', assistant_says ''Make a Stealth check, DC 14.'']))
   \<and> yields_kind (assistant_says ''Make a Stealth check, DC 14.'')
   \<and> resolve_pending_roll
        (Some ([assistant_says ''Roll initiative!'']
               @ assistant_says ''Make a Stealth check, DC 14.'' # [player_says ''I rolled 16'']))
       = resolve_pending_roll
        (Some ([assistant_says ''Make an attack roll against AC 18.'', player_says ''Hm.'']
               @ assistant_says ''Make a Stealth check, DC 14.'' # [player_says ''I rolled 16'']))"
proof -
  have l: "last8 (assistant_says ''Roll initiative!'' # 
           [player_says ''I open the door.'', assistant_says ''It creaks.'',
            player_says ''I step in.'', assistant_says ''The hall is dark.'',
            player_says ''I light a torch.'', assistant_says ''Shadows move.'',
            player_says ''I sneak forward.'', assistant_says ''Make a Stealth check, DC 14.'']) = last8 (player_says ''Hello.'' # 
           [player_says ''I open the door.'', assistant_says ''It creaks.'',
            player_says ''I step in.'', assistant_says ''The hall is dark.'',
            player_says ''I light a torch.'', assistant_says ''Shadows move.'',
            player_says ''I sneak forward.'', assistant_says ''Make a Stealth check, DC 14.''])"
    by (simp add: last8_def)
  have y: "yields_kind (assistant_says ''Make a Stealth check, DC 14.'')"
    by code_simp
  have n: "length [player_says ''I rolled 16''] < 8" by simp
  show ?thesis
    using l y n
      only_last_eight_up_to_first_kind
        [of "assistant_says ''Roll initiative!'' # 
           [player_says ''I open the door.'', assistant_says ''It creaks.'',
            player_says ''I step in.'', assistant_says ''The hall is dark.'',
            player_says ''I light a torch.'', assistant_says ''Shadows move.'',
            player_says ''I sneak forward.'', assistant_says ''Make a Stealth check, DC 14.'']" "player_says ''Hello.'' # 
           [player_says ''I open the door.'', assistant_says ''It creaks.'',
            player_says ''I step in.'', assistant_says ''The hall is dark.'',
            player_says ''I light a torch.'', assistant_says ''Shadows move.'',
            player_says ''I sneak forward.'', assistant_says ''Make a Stealth check, DC 14.'']"
            "[]" "[]" "assistant_says ''Make a Stealth check, DC 14.''"
            "[player_says ''I rolled 16'']" "[assistant_says ''Roll initiative!'']"
            "[assistant_says ''Make an attack roll against AC 18.'', player_says ''Hm.'']"]
    by blast
qed

subsection \<open>Asking for a new roll\<close>

lemma starts_with_map: "starts_with p s \<Longrightarrow> starts_with (map f p) (map f s)"
  unfolding starts_with_def by (metis length_map take_map)

lemma str_in_map: "str_in p s \<Longrightarrow> str_in (map f p) (map f s)"
proof (induction s)
  case Nil
  then show ?case by simp
next
  case (Cons c cs)
  then show ?case using starts_with_map [of p "c # cs" f] by auto
qed

lemma lower_save: "lower ''save'' = ''save''"
  by (simp add: lower_def lower_char_def)

lemma str_in_save_lower: "str_in ''save'' msg \<Longrightarrow> str_in ''save'' (lower msg)"
  using str_in_map [of "''save''" msg lower_char] lower_save by (simp add: lower_def)

text \<open>
  When \<^verbatim>\<open>save\<close> occurs in the message and the conversion of the stated DC does not
  raise, the request list is the list collected by the other rules followed by one
  saving-throw request with the DC read from the message.
\<close>

lemma save_request_appended_unless_raised:
  "str_in ''save'' msg \<Longrightarrow>
     classify_new_request msg
       = (case parsed_dc_of (lower msg) of
            Inl e \<Rightarrow> Inl e
          | Inr d \<Rightarrow> Inr (requests_before_save (lower msg) d @ [save_request d]))"
  using str_in_save_lower [of msg]
  by (simp add: classify_new_request_def Let_def split: sum.splits)

lemma long_dc_search:
  "0 < n \<Longrightarrow>
     re_search pat_dc None (''save me, dc '' @ replicate n CHR ''1'') = Some (replicate n CHR ''1'')"
  by (simp add: pat_dc_def lit_def starts_with_def word_boundary_def is_word_opt_def
        first_char_def is_word_def is_lower_def is_upper_def is_digit_def is_space_def
        spaces_digits_b_def digits_b_def Let_def)

lemma lower_long_dc:
  "lower (''save me, DC '' @ replicate n CHR ''1'') = ''save me, dc '' @ replicate n CHR ''1''"
  by (simp add: lower_def lower_char_def)

text \<open>
  C9. The conversion of the DC stated in the player's message is the only \<^verbatim>\<open>int\<close> of
  the service outside a \<^verbatim>\<open>try\<close> block. On a message that contains \<^verbatim>\<open>save\<close> and states
  a DC of 4301 digits the classification raises \<^verbatim>\<open>ValueError\<close> and so does the heuristic
  answer: no saving-throw request is returned.
\<close>

theorem unguarded_dc_conversion_raises:
  "str_in ''save'' (''save me, DC '' @ replicate 4301 CHR ''1'')
   \<and> classify_new_request (''save me, DC '' @ replicate 4301 CHR ''1'') = Inl ValueError
   \<and> heuristic_response env
        \<lparr>message = ''save me, DC '' @ replicate 4301 CHR ''1'', history = hist\<rparr> = Inl ValueError"
proof -
  have l: "lower (''save me, DC '' @ replicate 4301 CHR ''1'')
       = ''save me, dc '' @ replicate 4301 CHR ''1''"
    by (rule lower_long_dc)
  have r: "re_search pat_dc None (''save me, dc '' @ replicate 4301 CHR ''1'')
       = Some (replicate 4301 CHR ''1'')"
    by (rule long_dc_search) simp
  have p: "parsed_dc_of (lower (''save me, DC '' @ replicate 4301 CHR ''1'')) = Inl ValueError"
    unfolding parsed_dc_of_def l r by (simp add: py_int_def int_max_str_digits_def)
  have c: "classify_new_request (''save me, DC '' @ replicate 4301 CHR ''1'') = Inl ValueError"
    using p by (simp add: classify_new_request_def Let_def)
  have s: "str_in ''save'' (''save me, DC '' @ replicate 4301 CHR ''1'')"
    by (simp add: starts_with_def)
  show ?thesis using s c by (simp add: heuristic_response_def del: str_in.simps)
qed

subsection \<open>The outcome of a reported roll\<close>

text \<open>
  C5. The summary and the success flag are total functions of the pending roll and the
  reported total. An attack with a known AC succeeds exactly when the total reaches the AC
  and the summary says hit or miss; a check (a save) with a known DC succeeds exactly when
  the total reaches the DC and the summary names the skill (the ability) when there is a
  non-empty one, and says \<^verbatim>\<open>ability\<close> (\<^verbatim>\<open>saving\<close>) otherwise; initiative is noted without
  a success value; any other kind, or none, records the total without a success value.
\<close>

theorem outcome_rules:
  "(last_kind st = Some ''attack'' \<and> last_ac st = Some a \<longrightarrow>
      success_flag st t = Some (t \<ge> a)
      \<and> outcome_line (last_kind st) (last_skill st) (last_dc st) (last_ac st) t
          = ''Your attack roll is '' @ show_int t
            @ (if t \<ge> a then '' (hit).'' else '' (miss).''))
   \<and> (last_kind st = Some ''check'' \<and> last_dc st = Some d \<longrightarrow>
      success_flag st t = Some (t \<ge> d)
      \<and> outcome_line (last_kind st) (last_skill st) (last_dc st) (last_ac st) t
          = ''Your ''
            @ (case last_skill st of
                 None \<Rightarrow> ''ability''
               | Some s \<Rightarrow> if s = [] then ''ability'' else s)
            @ '' check is '' @ show_int t
            @ (if t \<ge> d then '' (success).'' else '' (failure).''))
   \<and> (last_kind st = Some ''save'' \<and> last_dc st = Some d \<longrightarrow>
      success_flag st t = Some (t \<ge> d)
      \<and> outcome_line (last_kind st) (last_skill st) (last_dc st) (last_ac st) t
          = ''Your ''
            @ (case last_skill st of
                 None \<Rightarrow> ''saving''
               | Some s \<Rightarrow> if s = [] then ''saving'' else s)
            @ '' throw is '' @ show_int t
            @ (if t \<ge> d then '' (success).'' else '' (failure).''))
   \<and> (last_kind st = Some ''initiative'' \<longrightarrow>
      success_flag st t = None
      \<and> outcome_line (last_kind st) (last_skill st) (last_dc st) (last_ac st) t
          = ''Initiative noted: '' @ show_int t @ ''.'')
   \<and> (last_kind st \<notin> {Some ''initiative'', Some ''attack'', Some ''save'', Some ''check''} \<longrightarrow>
      success_flag st t = None
      \<and> outcome_line (last_kind st) (last_skill st) (last_dc st) (last_ac st) t
          = ''Roll total recorded: '' @ show_int t @ ''.'')"
  by (simp add: outcome_line_def success_flag_def str_or_def truthy_def Let_def
        split: option.splits)

theorem outcome_rules_witness:
  "success_flag \<lparr>last_kind = Some ''check'', last_skill = Some ''stealth'',
                  last_dc = Some 14, last_ac = None\<rparr> 16 = Some True
   \<and> outcome_line (Some ''check'') (Some ''stealth'') (Some 14) None 16
       = ''Your stealth check is 16 (success).''
   \<and> success_flag \<lparr>last_kind = Some ''attack'', last_skill = None,
                  last_dc = None, last_ac = Some 13\<rparr> 10 = Some False
   \<and> outcome_line (Some ''attack'') None None (Some 13) 10 = ''Your attack roll is 10 (miss).''
   \<and> success_flag \<lparr>last_kind = Some ''initiative'', last_skill = None,
                  last_dc = None, last_ac = None\<rparr> 7 = None
   \<and> outcome_line (Some ''initiative'') None None None 7 = ''Initiative noted: 7.''
   \<and> outcome_line None None None None 7 = ''Roll total recorded: 7.''"
  using outcome_rules [of "\<lparr>last_kind = Some ''check'', last_skill = Some ''stealth'',
                  last_dc = Some 14, last_ac = None\<rparr>" 0 16 14]
    outcome_rules [of "\<lparr>last_kind = Some ''attack'', last_skill = None,
                  last_dc = None, last_ac = Some 13\<rparr>" 13 10 0]
    outcome_rules [of "\<lparr>last_kind = Some ''initiative'', last_skill = None,
                  last_dc = None, last_ac = None\<rparr>" 0 7 0]
    outcome_rules [of "\<lparr>last_kind = None, last_skill = None,
                  last_dc = None, last_ac = None\<rparr>" 0 7 0]
  by (simp add: show_int_def show_nat.simps)
subsection \<open>The answer to a reported roll\<close>

text \<open>
  C10. When a total is read from the player's message, the endpoint returns an answer and
  this answer carries an empty list of roll requests, whatever the history, the
  environment and the rest of the message.
\<close>

theorem followup_no_roll_requests:
  "extract_roll_total (message req) = Some n \<Longrightarrow>
     \<exists>r. respond env req = Inr r \<and> roll_requests r = []"
  by (simp add: respond_def roll_followup_from_history_def Let_def)

theorem followup_no_roll_requests_witness:
  "extract_roll_total
     (message \<lparr>message = ''I rolled 16 on my attack, save me'',
               history = Some [assistant_says ''Make a Stealth check, DC 14.'']\<rparr>) = Some 16
   \<and> (\<exists>r. respond \<lparr>inline_options = None, llm_reply = Some ''The guard attacks.''\<rparr>
          \<lparr>message = ''I rolled 16 on my attack, save me'',
           history = Some [assistant_says ''Make a Stealth check, DC 14.'']\<rparr> = Inr r
        \<and> roll_requests r = [])"
proof -
  have h: "extract_roll_total
     (message \<lparr>message = ''I rolled 16 on my attack, save me'',
               history = Some [assistant_says ''Make a Stealth check, DC 14.'']\<rparr>) = Some 16"
    by code_simp
  show ?thesis using h followup_no_roll_requests [OF h] by simp
qed

subsection \<open>Normalising an option menu\<close>

text \<open>
  The lines on which the pattern is tried hold no line feed, as the model of the match
  assumes.
\<close>

lemma splitlines_from_no_break:
  "list_all (\<lambda>c. \<not> is_linebreak c) cur \<Longrightarrow>
     list_all (list_all (\<lambda>c. \<not> is_linebreak c)) (splitlines_from cur s)"
proof (induction cur s rule: splitlines_from.induct)
  case (1 cur)
  then show ?case by simp
next
  case (2 cur c)
  then show ?case by simp
next
  case (3 cur c d cs)
  show ?case
  proof (cases "c = CHR 0x0D \<and> d = CHR 0x0A")
    case True
    then show ?thesis using 3 by simp
  next
    case False
    show ?thesis
    proof (cases "is_linebreak c")
      case True
      then show ?thesis using 3 False by auto
    next
      case nb: False
      then show ?thesis using 3 False by auto
    qed
  qed
qed

lemma set_strip_subset: "set (strip s) \<subseteq> set s"
proof -
  have "set (rstrip t) \<subseteq> set t" for t
    unfolding rstrip_def using set_dropWhileD [of _ is_space "rev t"] by auto
  moreover have "set (lstrip s) \<subseteq> set s"
    unfolding lstrip_def using set_dropWhileD [of _ is_space s] by auto
  ultimately show ?thesis unfolding strip_def by blast
qed

lemma option_lines_no_line_feed:
  "ln \<in> set (option_lines raw) \<Longrightarrow> CHR 0x0A \<notin> set ln"
proof -
  assume "ln \<in> set (option_lines raw)"
  then obtain l where l: "l \<in> set (splitlines raw)" and ln: "ln = strip l"
    by (auto simp: option_lines_def)
  from l have "\<forall>c \<in> set l. \<not> is_linebreak c"
    using splitlines_from_no_break [of "[]" raw] by (simp add: splitlines_def list_all_iff)
  moreover have "is_linebreak (CHR 0x0A)" by (simp add: is_linebreak_def)
  ultimately have "CHR 0x0A \<notin> set l" by blast
  then show ?thesis using ln set_strip_subset [of l] by blast
qed














text \<open>
  C2. The source comments the reformatting as ensuring a bold action, and the prompt of
  the same endpoint asks the language model for lines that are already of the canonical
  shape. Yet the head is wrapped without a look at what it holds, so a menu that is
  already canonical does not come back unchanged: on its own output the function doubles
  the asterisks.
\<close>

theorem normalize_options_twice:
  "normalize_options ''A. Sneak away\<newline>B. Fight''
     = [''A. **Sneak away**'', ''B. **Fight**'',
        ''C. **Explore another angle**, adapt your approach to the situation.'']
   \<and> normalize_options (join ''\<newline>'' (normalize_options ''A. Sneak away\<newline>B. Fight''))
     = [''A. ****Sneak away****'', ''B. ****Fight****'',
        ''C. ****Explore another angle****, adapt your approach to the situation.'']"
  by code_simp


end
